theory Spec2Isabelle
  imports Main "HOL-Library.Product_Lexorder"
begin

section \<open>Values and exceptions\<close>

text \<open>
  The program works on the value that \<^verbatim>\<open>res.json()\<close> returns: Python's \<^verbatim>\<open>None\<close>,
  booleans, integers, strings, lists and dictionaries. A dictionary is an association
  list read with \<open>map_of\<close>; its order is the insertion order of the Python dict.
  A number with a fraction or an exponent is a Python float, a double: \<open>Finite m e\<close> is
  the value \<open>m * 2 ^ e\<close>; \<^verbatim>\<open>json\<close> also reads \<^verbatim>\<open>NaN\<close> and the two infinities
  (\<open>Infinity True\<close> is the negative one).
\<close>

datatype pyfloat = Finite int int | NaN | Infinity bool

datatype json =
    JNull
  | JBool bool
  | JInt int
  | JFloat pyfloat
  | JStr string
  | JList "json list"
  | JDict "(string \<times> json) list"

text \<open>
  The exceptions the program can meet. \<open>RequestError\<close> stands for whatever
  \<^verbatim>\<open>requests.get\<close> or \<^verbatim>\<open>res.json()\<close> raise, with the message of the exception. The
  messages of the other exceptions are fixed ASCII texts and are not modelled.
\<close>

datatype py_error =
    AttributeError
  | TypeError
  | KeyError
  | IndexError
  | ValueError
  | OverflowError
  | OSError
  | UnicodeEncodeError
  | RequestError string

definition py_bind :: "py_error + 'a \<Rightarrow> ('a \<Rightarrow> py_error + 'b) \<Rightarrow> py_error + 'b" where
  "py_bind x f = (case x of Inl e \<Rightarrow> Inl e | Inr v \<Rightarrow> f v)"

text \<open>\<^verbatim>\<open>x.get(k, default)\<close>: only a dictionary has the method.\<close>

fun py_get :: "json \<Rightarrow> string \<Rightarrow> json \<Rightarrow> py_error + json" where
  "py_get (JDict kvs) k dflt = Inr (case map_of kvs k of None \<Rightarrow> dflt | Some v \<Rightarrow> v)"
| "py_get _ k dflt = Inl AttributeError"

text \<open>\<^verbatim>\<open>x[k]\<close> with a string key.\<close>

fun py_getitem :: "json \<Rightarrow> string \<Rightarrow> py_error + json" where
  "py_getitem (JDict kvs) k = (case map_of kvs k of None \<Rightarrow> Inl KeyError | Some v \<Rightarrow> Inr v)"
| "py_getitem _ k = Inl TypeError"

text \<open>\<^verbatim>\<open>x[0]\<close>. The keys of a parsed JSON object are strings, so \<^verbatim>\<open>d[0]\<close> is a KeyError.\<close>

fun py_index0 :: "json \<Rightarrow> py_error + json" where
  "py_index0 (JList []) = Inl IndexError"
| "py_index0 (JList (x # xs)) = Inr x"
| "py_index0 (JStr []) = Inl IndexError"
| "py_index0 (JStr (c # cs)) = Inr (JStr [c])"
| "py_index0 (JDict kvs) = Inl KeyError"
| "py_index0 _ = Inl TypeError"

text \<open>Iteration, as the list comprehension over \<^verbatim>\<open>edges\<close> does it.\<close>

fun py_iter :: "json \<Rightarrow> py_error + json list" where
  "py_iter (JList xs) = Inr xs"
| "py_iter (JStr s) = Inr (map (\<lambda>c. JStr [c]) s)"
| "py_iter (JDict kvs) = Inr (map (\<lambda>kv. JStr (fst kv)) kvs)"
| "py_iter _ = Inl TypeError"

text \<open>Truth value, as \<^verbatim>\<open>if end_cursor:\<close> reads it.\<close>

fun truthy :: "json \<Rightarrow> bool" where
  "truthy JNull = False"
| "truthy (JBool b) = b"
| "truthy (JInt i) = (i \<noteq> 0)"
| "truthy (JFloat x) = (case x of Finite m e \<Rightarrow> m \<noteq> 0 | _ \<Rightarrow> True)"
| "truthy (JStr s) = (s \<noteq> [])"
| "truthy (JList xs) = (xs \<noteq> [])"
| "truthy (JDict kvs) = (kvs \<noteq> [])"

section \<open>Dates and times\<close>

text \<open>
  A naive \<^verbatim>\<open>datetime\<close> is the tuple (year, month, day, hour, minute, second,
  microsecond); Python compares two of them as these tuples, lexicographically, which is
  the order of the product type here.
\<close>

type_synonym datetime = "nat \<times> nat \<times> nat \<times> nat \<times> nat \<times> nat \<times> nat"

text \<open>
  The calendar arithmetic of the \<^verbatim>\<open>datetime\<close> module (proleptic Gregorian calendar,
  day 1 is 0001-01-01), written as the module writes it. Index 0 of the two tables is a
  placeholder there and here.
\<close>

definition DAYS_IN_MONTH :: "nat list" where
  "DAYS_IN_MONTH = [0, 31, 28, 31, 30, 31, 30, 31, 31, 30, 31, 30, 31]"

definition DAYS_BEFORE_MONTH :: "nat list" where
  "DAYS_BEFORE_MONTH = [0, 0, 31, 59, 90, 120, 151, 181, 212, 243, 273, 304, 334]"

definition is_leap :: "nat \<Rightarrow> bool" where
  "is_leap year = (year mod 4 = 0 \<and> (year mod 100 \<noteq> 0 \<or> year mod 400 = 0))"

definition days_before_year :: "nat \<Rightarrow> nat" where
  "days_before_year year =
     (let y = year - 1 in y * 365 + y div 4 - y div 100 + y div 400)"

definition days_in_month :: "nat \<Rightarrow> nat \<Rightarrow> nat" where
  "days_in_month year month =
     (if month = 2 \<and> is_leap year then 29 else DAYS_IN_MONTH ! month)"

definition days_before_month :: "nat \<Rightarrow> nat \<Rightarrow> nat" where
  "days_before_month year month =
     DAYS_BEFORE_MONTH ! month + (if month > 2 \<and> is_leap year then 1 else 0)"

definition ymd2ord :: "nat \<Rightarrow> nat \<Rightarrow> nat \<Rightarrow> nat" where
  "ymd2ord year month day = days_before_year year + days_before_month year month + day"

definition ord2ymd :: "nat \<Rightarrow> nat \<times> nat \<times> nat" where
  "ord2ymd ordinal =
     (let n = ordinal - 1;
          n400 = n div 146097; n = n mod 146097;
          year = n400 * 400 + 1;
          n100 = n div 36524; n = n mod 36524;
          n4 = n div 1461; n = n mod 1461;
          n1 = n div 365; n = n mod 365;
          year = year + n100 * 100 + n4 * 4 + n1
      in if n1 = 4 \<or> n100 = 4 then (year - 1, 12, 31)
         else
           let leapyear = (n1 = 3 \<and> (n4 \<noteq> 24 \<or> n100 = 3));
               month = (n + 50) div 32;
               preceding = DAYS_BEFORE_MONTH ! month + (if month > 2 \<and> leapyear then 1 else 0)
           in if preceding > n
              then let month = month - 1;
                       preceding = preceding -
                         (DAYS_IN_MONTH ! month + (if month = 2 \<and> leapyear then 1 else 0))
                   in (year, month, n - preceding + 1)
              else (year, month, n - preceding + 1))"

text \<open>
  \<^verbatim>\<open>datetime.utcfromtimestamp\<close>, from the seconds and microseconds it has read off its
  argument. The seconds must fit the 64 bits of \<^verbatim>\<open>time_t\<close> (OverflowError otherwise);
  the day is counted from 1970-01-01 (ordinal 719163) and must fall in the years 1 to
  9999 (ordinals 1 to 3652059). Outside these years Python raises ValueError, or OSError
  when the C library cannot hold the year; the model names both ValueError.
\<close>

definition datetime_from_timet :: "int \<Rightarrow> nat \<Rightarrow> py_error + datetime" where
  "datetime_from_timet ts us =
     (if ts < - 9223372036854775808 \<or> 9223372036854775808 \<le> ts then Inl OverflowError
      else
        let days = ts div 86400; secs = nat (ts mod 86400); ordinal = days + 719163
        in if ordinal < 1 \<or> 3652059 < ordinal then Inl ValueError
           else case ord2ymd (nat ordinal) of
                  (y, m, d) \<Rightarrow>
                    Inr (y, m, d, secs div 3600, (secs mod 3600) div 60, secs mod 60, us))"

definition utcfromtimestamp :: "int \<Rightarrow> py_error + datetime" where
  "utcfromtimestamp ts = datetime_from_timet ts 0"

text \<open>
  The same for a float. CPython splits the double into its integral and fractional
  part, multiplies the fraction by \<open>10\<^sup>6\<close> (a product of doubles, so rounded to 53 bits),
  rounds the product to the nearest integer, the even one on a tie, and carries into the
  seconds. \<open>10\<^sup>6\<close> is \<open>15625 * 2\<^sup>6\<close>. NaN is a ValueError, an infinity an OverflowError.
\<close>

function bit_length :: "nat \<Rightarrow> nat" where
  "bit_length n = (if n = 0 then 0 else Suc (bit_length (n div 2)))"
  by pat_completeness auto
termination
  by (relation "measure (\<lambda>n. n)") auto

definition round_half_even :: "int \<Rightarrow> int \<Rightarrow> int" where
  "round_half_even n d =
     (let f = n div d; r = n mod d
      in if 2 * r < d then f else if d < 2 * r then f + 1 else if even f then f else f + 1)"

definition round_to_double :: "int \<Rightarrow> int \<Rightarrow> int \<times> int" where
  "round_to_double m e =
     (let k = int (bit_length (nat \<bar>m\<bar>)) - 53
      in if k \<le> 0 then (m, e) else (round_half_even m (2 ^ nat k), e + k))"

definition double_to_timeval :: "int \<Rightarrow> int \<Rightarrow> int \<times> int" where
  "double_to_timeval m e =
     (if 0 \<le> e then (m * 2 ^ nat e, 0)
      else
        let q = 2 ^ nat (- e);
            intpart = (if 0 \<le> m then m div q else - ((- m) div q));
            fracnum = m - intpart * q
        in case round_to_double (fracnum * 15625) (e + 6) of
             (pm, pe) \<Rightarrow>
               let us = (if 0 \<le> pe then pm * 2 ^ nat pe else round_half_even pm (2 ^ nat (- pe)))
               in if 1000000 \<le> us then (intpart + 1, us - 1000000)
                  else if us < 0 then (intpart - 1, us + 1000000)
                  else (intpart, us))"

fun utcfromtimestamp_float :: "pyfloat \<Rightarrow> py_error + datetime" where
  "utcfromtimestamp_float NaN = Inl ValueError"
| "utcfromtimestamp_float (Infinity neg) = Inl OverflowError"
| "utcfromtimestamp_float (Finite m e) =
     (case double_to_timeval m e of (ts, us) \<Rightarrow> datetime_from_timet ts (nat us))"

text \<open>The point in time of a naive UTC datetime, in whole seconds since the epoch.\<close>

definition timestamp_of :: "datetime \<Rightarrow> int" where
  "timestamp_of dt =
     (case dt of (y, m, d, hh, mm, ss, us) \<Rightarrow>
        (int (ymd2ord y m d) - 719163) * 86400 + int hh * 3600 + int mm * 60 + int ss)"

text \<open>
  \<^verbatim>\<open>strftime("%Y-%m-%d %H:%M:%S")\<close>. CPython hands the format to the C library: the
  fields other than the year come in two digits, padded with zeros; the year is written
  as the decimal number it is, which for a year below 1000 has fewer than four digits
  (the GNU C library does not pad \<^verbatim>\<open>%Y\<close>).
\<close>

definition digit_char :: "nat \<Rightarrow> char" where
  "digit_char d = ''0123456789'' ! d"

definition pad2 :: "nat \<Rightarrow> string" where
  "pad2 n = [digit_char (n div 10 mod 10), digit_char (n mod 10)]"

function digits_of_nat :: "nat \<Rightarrow> string" where
  "digits_of_nat n =
     (if n < 10 then [digit_char n] else digits_of_nat (n div 10) @ [digit_char (n mod 10)])"
  by pat_completeness auto
termination
  by (relation "measure (\<lambda>n. n)") auto

definition strftime :: "datetime \<Rightarrow> string" where
  "strftime dt =
     (case dt of (y, m, d, hh, mm, ss, us) \<Rightarrow>
        digits_of_nat y @ ''-'' @ pad2 m @ ''-'' @ pad2 d @ '' '' @ pad2 hh @ '':'' @ pad2 mm @ '':'' @ pad2 ss)"

section \<open>Reading a date back\<close>

text \<open>
  \<^verbatim>\<open>datetime.strptime(s, "%Y-%m-%d %H:%M:%S")\<close>. Python turns the format into a regular
  expression: four digits for the year, and for the other fields the alternatives
  written below, tried from left to right (a field may come without its leading zero);
  the blank of the format matches one or more white-space characters. The whole string
  must be consumed, and the fields must form a date: otherwise ValueError.
\<close>

definition digit_val :: "char \<Rightarrow> nat option" where
  "digit_val c =
     (let n = (of_char c :: nat) in if 48 \<le> n \<and> n \<le> 57 then Some (n - 48) else None)"

definition is_space :: "char \<Rightarrow> bool" where
  "is_space c = (let n = (of_char c :: nat) in (9 \<le> n \<and> n \<le> 13) \<or> (28 \<le> n \<and> n \<le> 32))"

definition orelse :: "'a option \<Rightarrow> 'a option \<Rightarrow> 'a option" where
  "orelse x y = (case x of None \<Rightarrow> y | Some v \<Rightarrow> Some v)"

definition two_digits :: "(nat \<Rightarrow> nat \<Rightarrow> bool) \<Rightarrow> string \<Rightarrow> (nat \<times> string) option" where
  "two_digits ok s =
     (case s of
        c1 # c2 # rest \<Rightarrow>
          (case digit_val c1 of
             None \<Rightarrow> None
           | Some a \<Rightarrow>
               (case digit_val c2 of
                  None \<Rightarrow> None
                | Some b \<Rightarrow> if ok a b then Some (10 * a + b, rest) else None))
      | _ \<Rightarrow> None)"

definition one_digit :: "(nat \<Rightarrow> bool) \<Rightarrow> string \<Rightarrow> (nat \<times> string) option" where
  "one_digit ok s =
     (case s of
        c # rest \<Rightarrow>
          (case digit_val c of None \<Rightarrow> None | Some a \<Rightarrow> if ok a then Some (a, rest) else None)
      | [] \<Rightarrow> None)"

definition expect :: "char \<Rightarrow> string \<Rightarrow> string option" where
  "expect c s = (case s of x # rest \<Rightarrow> if x = c then Some rest else None | [] \<Rightarrow> None)"

definition spaces1 :: "string \<Rightarrow> string option" where
  "spaces1 s =
     (case s of x # rest \<Rightarrow> if is_space x then Some (dropWhile is_space rest) else None
      | [] \<Rightarrow> None)"

definition parse_Y :: "string \<Rightarrow> (nat \<times> string) option" where
  "parse_Y s =
     (case two_digits (\<lambda>a b. True) s of
        None \<Rightarrow> None
      | Some (hi, rest) \<Rightarrow>
          (case two_digits (\<lambda>a b. True) rest of
             None \<Rightarrow> None
           | Some (lo, rest') \<Rightarrow> Some (100 * hi + lo, rest')))"

definition parse_m :: "string \<Rightarrow> (nat \<times> string) option" where
  "parse_m s =
     orelse (two_digits (\<lambda>a b. a = 1 \<and> b \<le> 2) s)
    (orelse (two_digits (\<lambda>a b. a = 0 \<and> 1 \<le> b) s)
            (one_digit (\<lambda>a. 1 \<le> a) s))"

definition parse_d :: "string \<Rightarrow> (nat \<times> string) option" where
  "parse_d s =
     orelse (two_digits (\<lambda>a b. a = 3 \<and> b \<le> 1) s)
    (orelse (two_digits (\<lambda>a b. 1 \<le> a \<and> a \<le> 2) s)
    (orelse (two_digits (\<lambda>a b. a = 0 \<and> 1 \<le> b) s)
    (orelse (one_digit (\<lambda>a. 1 \<le> a) s)
            (case expect CHR '' '' s of None \<Rightarrow> None | Some rest \<Rightarrow> one_digit (\<lambda>a. 1 \<le> a) rest))))"

definition parse_H :: "string \<Rightarrow> (nat \<times> string) option" where
  "parse_H s =
     orelse (two_digits (\<lambda>a b. a = 2 \<and> b \<le> 3) s)
    (orelse (two_digits (\<lambda>a b. a \<le> 1) s)
            (one_digit (\<lambda>a. True) s))"

definition parse_M :: "string \<Rightarrow> (nat \<times> string) option" where
  "parse_M s =
     orelse (two_digits (\<lambda>a b. a \<le> 5) s) (one_digit (\<lambda>a. True) s)"

definition parse_S :: "string \<Rightarrow> (nat \<times> string) option" where
  "parse_S s =
     orelse (two_digits (\<lambda>a b. a = 6 \<and> b \<le> 1) s)
    (orelse (two_digits (\<lambda>a b. a \<le> 5) s)
            (one_digit (\<lambda>a. True) s))"

definition parse_fields :: "string \<Rightarrow> (nat \<times> nat \<times> nat \<times> nat \<times> nat \<times> nat) option" where
  "parse_fields s0 =
     Option.bind (parse_Y s0) (\<lambda>(y, s1).
     Option.bind (expect CHR ''-'' s1) (\<lambda>s2.
     Option.bind (parse_m s2) (\<lambda>(m, s3).
     Option.bind (expect CHR ''-'' s3) (\<lambda>s4.
     Option.bind (parse_d s4) (\<lambda>(d, s5).
     Option.bind (spaces1 s5) (\<lambda>s6.
     Option.bind (parse_H s6) (\<lambda>(hh, s7).
     Option.bind (expect CHR '':'' s7) (\<lambda>s8.
     Option.bind (parse_M s8) (\<lambda>(mm, s9).
     Option.bind (expect CHR '':'' s9) (\<lambda>s10.
     Option.bind (parse_S s10) (\<lambda>(ss, s11).
     if s11 = [] then Some (y, m, d, hh, mm, ss) else None)))))))))))"

definition strptime :: "string \<Rightarrow> py_error + datetime" where
  "strptime s =
     (case parse_fields s of
        None \<Rightarrow> Inl ValueError
      | Some (y, m, d, hh, mm, ss) \<Rightarrow>
          if y < 1 \<or> days_in_month y m < d \<or> 59 < ss then Inl ValueError
          else Inr (y, m, d, hh, mm, ss, 0))"

section \<open>Record Extractor\<close>

text \<open>
  \<^verbatim>\<open>convert_timestamp_to_string(ts)\<close>. The argument is whatever
  \<^verbatim>\<open>node.get("taken_at_timestamp", None)\<close> gave: \<^verbatim>\<open>None\<close> gives the empty string, an
  integer or a float is converted (a bool is an integer in Python), anything else is a
  TypeError of \<^verbatim>\<open>utcfromtimestamp\<close>.
\<close>

fun convert_timestamp_to_string :: "json \<Rightarrow> py_error + string" where
  "convert_timestamp_to_string JNull = Inr []"
| "convert_timestamp_to_string (JInt ts) =
     py_bind (utcfromtimestamp ts) (\<lambda>dt. Inr (strftime dt))"
| "convert_timestamp_to_string (JBool b) =
     py_bind (utcfromtimestamp (if b then 1 else 0)) (\<lambda>dt. Inr (strftime dt))"
| "convert_timestamp_to_string (JFloat x) =
     py_bind (utcfromtimestamp_float x) (\<lambda>dt. Inr (strftime dt))"
| "convert_timestamp_to_string _ = Inl TypeError"

text \<open>A post is the dictionary \<^verbatim>\<open>get_post_from_node\<close> returns, in insertion order.\<close>

type_synonym post = "(string \<times> json) list"

text \<open>The chained lookup of lines 40 to 45 of the source, for the caption.\<close>

definition caption_of :: "json \<Rightarrow> py_error + json" where
  "caption_of node =
     py_bind (py_get node ''edge_media_to_caption'' (JDict [])) (\<lambda>c.
     py_bind (py_get c ''edges'' (JList [JDict []])) (\<lambda>es.
     py_bind (py_index0 es) (\<lambda>e0.
     py_bind (py_get e0 ''node'' (JDict [])) (\<lambda>n.
     py_get n ''text'' JNull))))"

text \<open>
  \<^verbatim>\<open>get_post_from_node(node)\<close>, the lookups in the order of the source, so that the
  first one that raises decides the exception.
\<close>

definition get_post_from_node :: "json \<Rightarrow> py_error + post" where
  "get_post_from_node node =
     py_bind (py_get node ''id'' JNull) (\<lambda>post_id.
     py_bind (py_bind (py_get node ''owner'' (JDict [])) (\<lambda>ow. py_get ow ''id'' JNull)) (\<lambda>owner_id.
     py_bind (py_bind (py_get node ''taken_at_timestamp'' JNull) convert_timestamp_to_string)
       (\<lambda>created_time.
     py_bind (py_get node ''__typename'' JNull) (\<lambda>typename.
     py_bind (py_bind (py_get node ''edge_media_to_comment'' (JDict []))
                (\<lambda>ec. py_get ec ''count'' JNull)) (\<lambda>comment_count.
     py_bind (py_bind (py_get node ''edge_liked_by'' (JDict []))
                (\<lambda>el. py_get el ''count'' JNull)) (\<lambda>like_count.
     py_bind (py_get node ''video_view_count'' JNull) (\<lambda>video_view_count.
     py_bind (py_get node ''shortcode'' JNull) (\<lambda>shortcode.
     py_bind (caption_of node) (\<lambda>caption.
     Inr [(''id'', post_id),
          (''owner_id'', owner_id),
          (''created_time'', JStr created_time),
          (''typename'', typename),
          (''comment_count'', comment_count),
          (''like_count'', like_count),
          (''video_view_count'', video_view_count),
          (''shortcode'', shortcode),
          (''caption'', caption)])))))))))"

definition post_keys :: "string list" where
  "post_keys = [''id'', ''owner_id'', ''created_time'', ''typename'', ''comment_count'',
                ''like_count'', ''video_view_count'', ''shortcode'', ''caption'']"

section \<open>The environment\<close>

text \<open>
  What the program meets outside itself and the source does not fix: the \<^verbatim>\<open>str()\<close> of a
  float, a list or a dictionary (\<open>repr\<close>); which texts the standard output can encode,
  which paths can be opened for writing, and which texts the encoding of a file so
  opened can encode.
\<close>

record environment =
  repr :: "json \<Rightarrow> string"
  stdout_encodes :: "string \<Rightarrow> bool"
  can_open :: "string \<Rightarrow> bool"
  file_encodes :: "string \<Rightarrow> bool"

definition str_of_int :: "int \<Rightarrow> string" where
  "str_of_int i = (if i < 0 then CHR ''-'' # digits_of_nat (nat (- i)) else digits_of_nat (nat i))"

text \<open>\<^verbatim>\<open>str(v)\<close>, as an f-string formats a value.\<close>

fun py_str :: "environment \<Rightarrow> json \<Rightarrow> string" where
  "py_str env JNull = ''None''"
| "py_str env (JStr s) = s"
| "py_str env (JInt i) = str_of_int i"
| "py_str env (JBool b) = (if b then ''True'' else ''False'')"
| "py_str env v = repr env v"

section \<open>Fetch Loop\<close>

text \<open>
  The upstream server is a parameter: its answer to the \<open>n\<close>-th request (counted from
  0), which the program makes without a cursor (\<open>None\<close>) or with \<^verbatim>\<open>&max_id=\<close> the cursor.
  The answer is the parsed body, or the exception of \<^verbatim>\<open>requests.get\<close> or
  \<^verbatim>\<open>res.json()\<close>.
\<close>

type_synonym upstream = "nat \<Rightarrow> json option \<Rightarrow> py_error + json"

fun py_map :: "('a \<Rightarrow> py_error + 'b) \<Rightarrow> 'a list \<Rightarrow> py_error + 'b list" where
  "py_map f [] = Inr []"
| "py_map f (x # xs) =
     (case f x of
        Inl e \<Rightarrow> Inl e
      | Inr y \<Rightarrow> (case py_map f xs of Inl e \<Rightarrow> Inl e | Inr ys \<Rightarrow> Inr (y # ys)))"

definition hashtag_media :: "json \<Rightarrow> py_error + json" where
  "hashtag_media data =
     py_bind (py_getitem data ''graphql'') (\<lambda>g.
     py_bind (py_getitem g ''hashtag'') (\<lambda>h.
     py_getitem h ''edge_hashtag_to_media''))"

text \<open>The navigation to the cursor (lines 100 to 102) and to the edges (line 104).\<close>

definition page_cursor :: "json \<Rightarrow> py_error + json" where
  "page_cursor data =
     py_bind (hashtag_media data) (\<lambda>m.
     py_bind (py_getitem m ''page_info'') (\<lambda>pi. py_getitem pi ''end_cursor''))"

definition page_edges :: "json \<Rightarrow> py_error + json" where
  "page_edges data = py_bind (hashtag_media data) (\<lambda>m. py_getitem m ''edges'')"

text \<open>The list comprehension of line 105 over the edges.\<close>

definition posts_of_edges :: "json \<Rightarrow> py_error + post list" where
  "posts_of_edges edges =
     py_bind (py_iter edges)
       (py_map (\<lambda>edge. py_bind (py_get edge ''node'' JNull) get_post_from_node))"

text \<open>
  The body of the \<^verbatim>\<open>try\<close> block, given the answer to the request: the new cursor and
  the posts of the page, or the exception that the \<^verbatim>\<open>except\<close> clause catches.
\<close>

definition try_block :: "py_error + json \<Rightarrow> py_error + json \<times> post list" where
  "try_block response =
     py_bind response (\<lambda>data.
     py_bind (page_cursor data) (\<lambda>cursor.
     py_bind (page_edges data) (\<lambda>edges.
     py_bind (posts_of_edges edges) (\<lambda>posts.
     Inr (cursor, posts)))))"

text \<open>
  Lines 117 to 125: the dates of the posts of the page whose \<^verbatim>\<open>created_time\<close> is a
  string, each read back with \<^verbatim>\<open>strptime\<close>, and their minimum. \<^verbatim>\<open>min\<close> of an empty list
  is a ValueError.
\<close>

fun created_datetimes :: "post list \<Rightarrow> py_error + datetime list" where
  "created_datetimes [] = Inr []"
| "created_datetimes (post # posts) =
     (case map_of post ''created_time'' of
        None \<Rightarrow> Inl KeyError
      | Some (JStr s) \<Rightarrow>
          (case strptime s of
             Inl e \<Rightarrow> Inl e
           | Inr d \<Rightarrow> (case created_datetimes posts of Inl e \<Rightarrow> Inl e | Inr ds \<Rightarrow> Inr (d # ds)))
      | Some _ \<Rightarrow> created_datetimes posts)"

fun py_min :: "datetime list \<Rightarrow> py_error + datetime" where
  "py_min [] = Inl ValueError"
| "py_min (d # ds) = Inr (fold min ds d)"

definition earliest_of :: "post list \<Rightarrow> py_error + datetime" where
  "earliest_of posts = py_bind (created_datetimes posts) py_min"

text \<open>
  The variables of the loop. \<open>fetches\<close> and \<open>slept\<close> are not variables of the source:
  they count the requests made and the seconds slept.
\<close>

record loop_state =
  all_posts :: "post list"
  end_cursor :: json
  earliest_datetime_so_far :: datetime
  fetches :: nat
  slept :: int

datatype step = Continue loop_state | Break loop_state | Raise py_error

text \<open>
  \<^verbatim>\<open>time.sleep(wait)\<close> raises ValueError on a negative number, and OverflowError (or
  OSError) on a number of seconds too large for its clock, from 9223372036 on.
\<close>

definition sleep_error :: "int \<Rightarrow> py_error option" where
  "sleep_error wait =
     (if wait < 0 then Some ValueError
      else if 9223372036 \<le> wait then Some OverflowError
      else None)"

text \<open>
  Printing. The messages the program prints are fixed ASCII texts, except two: the
  cursor (line 86) and the exception caught (line 108). \<^verbatim>\<open>print\<close> raises
  UnicodeEncodeError on a text the standard output cannot encode. What is printed is
  not recorded; a closed standard output is outside the model.
\<close>

definition print_cursor :: "environment \<Rightarrow> json \<Rightarrow> py_error option" where
  "print_cursor env cursor =
     (if stdout_encodes env (''Using cursor '' @ [CHR 0x22] @ py_str env cursor @ [CHR 0x22])
      then None else Some UnicodeEncodeError)"

definition print_exception :: "environment \<Rightarrow> py_error \<Rightarrow> py_error option" where
  "print_exception env e =
     (case e of
        RequestError msg \<Rightarrow> if stdout_encodes env msg then None else Some UnicodeEncodeError
      | _ \<Rightarrow> None)"

text \<open>
  Lines 83 to 87, before the \<^verbatim>\<open>try\<close> block: with a cursor, sleep and print it. The
  result is the exception that leaves the loop there, if any.
\<close>

definition before_request :: "environment \<Rightarrow> int \<Rightarrow> loop_state \<Rightarrow> py_error option" where
  "before_request env wait s =
     (if truthy (end_cursor s)
      then (case sleep_error wait of
              Some e \<Rightarrow> Some e
            | None \<Rightarrow> print_cursor env (end_cursor s))
      else None)"

text \<open>
  One pass through the body of the \<^verbatim>\<open>while\<close> loop (lines 81 to 127). The sleep, the
  printing of the cursor, the printing in the \<^verbatim>\<open>except\<close> clause and the computation of
  the minimum are outside the \<^verbatim>\<open>try\<close> block: an exception there leaves the loop. After
  a \<^verbatim>\<open>break\<close> nothing reads \<^verbatim>\<open>end_cursor\<close> any more, and the model leaves it as it was.
\<close>

definition request_of :: "loop_state \<Rightarrow> json option" where
  "request_of s = (if truthy (end_cursor s) then Some (end_cursor s) else None)"

definition loop_body :: "environment \<Rightarrow> upstream \<Rightarrow> int \<Rightarrow> loop_state \<Rightarrow> step" where
  "loop_body env upstream wait s =
     (case before_request env wait s of
        Some e \<Rightarrow> Raise e
      | None \<Rightarrow>
          let s' = s\<lparr>fetches := fetches s + 1,
                     slept := (if truthy (end_cursor s) then slept s + wait else slept s)\<rparr>
          in case try_block (upstream (fetches s) (request_of s)) of
               Inl e \<Rightarrow> (case print_exception env e of Some e' \<Rightarrow> Raise e' | None \<Rightarrow> Break s')
             | Inr (cursor, posts) \<Rightarrow>
                 if length posts = 0 then Break s'
                 else (case earliest_of posts of
                         Inl e \<Rightarrow> Raise e
                       | Inr d \<Rightarrow>
                           Continue (s'\<lparr>all_posts := all_posts s @ posts,
                                        end_cursor := cursor,
                                        earliest_datetime_so_far := d\<rparr>)))"

text \<open>The \<^verbatim>\<open>while\<close> loop. It need not end, so its result is an option.\<close>

partial_function (option) get_posts_loop ::
  "environment \<Rightarrow> upstream \<Rightarrow> datetime \<Rightarrow> int \<Rightarrow> loop_state \<Rightarrow> (py_error + loop_state) option"
  where
  "get_posts_loop env upstream min_datetime wait s =
     (if min_datetime < earliest_datetime_so_far s then
        (case loop_body env upstream wait s of
           Continue s' \<Rightarrow> get_posts_loop env upstream min_datetime wait s'
         | Break s' \<Rightarrow> Some (Inr s')
         | Raise e \<Rightarrow> Some (Inl e))
      else Some (Inr s))"

definition initial_state :: "datetime \<Rightarrow> loop_state" where
  "initial_state now =
     \<lparr>all_posts = [], end_cursor = JStr [], earliest_datetime_so_far = now,
      fetches = 0, slept = 0\<rparr>"

text \<open>
  \<^verbatim>\<open>get_posts(tag, min_datetime, wait)\<close>, with the clock reading of line 78 as the
  parameter \<open>now\<close>. \<open>get_posts_run\<close> keeps the final state, \<open>get_posts\<close> is what the
  source returns.
\<close>

definition get_posts_run ::
  "environment \<Rightarrow> upstream \<Rightarrow> datetime \<Rightarrow> datetime \<Rightarrow> int \<Rightarrow> (py_error + loop_state) option"
  where
  "get_posts_run env upstream now min_datetime wait =
     get_posts_loop env upstream min_datetime wait (initial_state now)"

definition get_posts ::
  "environment \<Rightarrow> upstream \<Rightarrow> datetime \<Rightarrow> datetime \<Rightarrow> int \<Rightarrow> (py_error + post list) option"
  where
  "get_posts env upstream now min_datetime wait =
     (case get_posts_run env upstream now min_datetime wait of
        None \<Rightarrow> None
      | Some (Inl e) \<Rightarrow> Some (Inl e)
      | Some (Inr s) \<Rightarrow> Some (Inr (all_posts s)))"

declare get_posts_loop.simps [code]

text \<open>
  The states the loop passes through on its way from the initial state: each is
  entered by a pass through the body that the guard of line 80 allowed.
\<close>

inductive reached ::
  "environment \<Rightarrow> upstream \<Rightarrow> datetime \<Rightarrow> int \<Rightarrow> datetime \<Rightarrow> loop_state \<Rightarrow> bool"
  for env upstream min_datetime wait now where
    start: "reached env upstream min_datetime wait now (initial_state now)"
  | pass: "reached env upstream min_datetime wait now s \<Longrightarrow>
           min_datetime < earliest_datetime_so_far s \<Longrightarrow>
           loop_body env upstream wait s = Continue s' \<Longrightarrow>
           reached env upstream min_datetime wait now s'"

section \<open>Exporter\<close>

text \<open>
  \<^verbatim>\<open>csv.writer(f, delimiter="|")\<close> writes a row as the texts of its fields, joined by the
  delimiter and ended by \<^verbatim>\<open>\r\n\<close>. The text of \<^verbatim>\<open>None\<close> is empty, a string is itself,
  any other value is its \<^verbatim>\<open>str()\<close>. A text that contains the delimiter, the quote
  character, a carriage return or a line feed is put between quotes, with each quote
  doubled (the default \<^verbatim>\<open>QUOTE_MINIMAL\<close>).
\<close>

definition field_text :: "environment \<Rightarrow> json \<Rightarrow> string" where
  "field_text env v = (case v of JNull \<Rightarrow> [] | _ \<Rightarrow> py_str env v)"

definition special_char :: "char \<Rightarrow> bool" where
  "special_char c =
     (c = CHR ''|'' \<or> c = CHR 0x22 \<or> c = CHR 0x0D \<or> c = CHR 0x0A)"

definition quote_field :: "string \<Rightarrow> string" where
  "quote_field t =
     (if list_ex special_char t
      then [CHR 0x22] @ concat (map (\<lambda>c. if c = CHR 0x22 then [c, c] else [c]) t) @ [CHR 0x22]
      else t)"

fun join_fields :: "string list \<Rightarrow> string" where
  "join_fields [] = []"
| "join_fields [t] = t"
| "join_fields (t # ts) = t @ [CHR ''|''] @ join_fields ts"

text \<open>A row whose only field is empty is written as two quotes.\<close>

definition writerow :: "string list \<Rightarrow> string" where
  "writerow texts =
     (if texts = [[]] then [CHR 0x22, CHR 0x22] else join_fields (map quote_field texts))
     @ [CHR 0x0D, CHR 0x0A]"

text \<open>
  The file system is a map from paths to contents; opening a path for writing replaces
  its content. \<^verbatim>\<open>open\<close> raises OSError on a path that cannot be opened, and the write
  raises UnicodeEncodeError on a text the encoding of the file cannot encode (Python
  text may hold characters, such as a lone surrogate read from JSON, that no encoding
  takes, and the default encoding depends on the locale). What is left of the file
  after a failed write is not modelled.
\<close>

type_synonym filesystem = "string \<rightharpoonup> string"

text \<open>The rows written: the keys of the first post, then the values of each post.\<close>

definition csv_rows :: "environment \<Rightarrow> post list \<Rightarrow> string list list" where
  "csv_rows env posts = map fst (hd posts) # map (\<lambda>m. map (field_text env) (map snd m)) posts"

definition csv_content :: "environment \<Rightarrow> post list \<Rightarrow> string" where
  "csv_content env posts = concat (map writerow (csv_rows env posts))"

definition export_posts ::
  "environment \<Rightarrow> filesystem \<Rightarrow> post list \<Rightarrow> string \<Rightarrow> py_error + filesystem" where
  "export_posts env fs posts output_path =
     (if length posts > 0
      then (if \<not> can_open env output_path then Inl OSError
            else if \<not> file_encodes env (csv_content env posts) then Inl UnicodeEncodeError
            else Inr (fs(output_path \<mapsto> csv_content env posts)))
      else Inr fs)"

section \<open>Command Surface\<close>

text \<open>
  \<^verbatim>\<open>main\<close> after the arguments are parsed: fetch, then export. An exception that leaves
  \<^verbatim>\<open>get_posts\<close> ends the program before the export.
\<close>

definition main ::
  "environment \<Rightarrow> upstream \<Rightarrow> datetime \<Rightarrow> filesystem \<Rightarrow> datetime \<Rightarrow> string \<Rightarrow> int
     \<Rightarrow> (py_error + filesystem) option" where
  "main env upstream now fs min_date output wait =
     (case get_posts env upstream now min_date wait of
        None \<Rightarrow> None
      | Some (Inl e) \<Rightarrow> Some (Inl e)
      | Some (Inr posts) \<Rightarrow> Some (export_posts env fs posts output))"

section \<open>A concrete run\<close>

text \<open>
  Responses of the shape the endpoint gives, used to run the definitions on concrete
  inputs: two posts \<open>a\<close> and \<open>b\<close>, taken at 2021-03-15 10:20:30 and 100 seconds later.
\<close>

definition example_page :: "json \<Rightarrow> json list \<Rightarrow> json" where
  "example_page cursor edges =
     JDict [(''graphql'', JDict [(''hashtag'', JDict [(''edge_hashtag_to_media'',
       JDict [(''page_info'', JDict [(''end_cursor'', cursor)]), (''edges'', JList edges)])])])]"

definition example_node :: "string \<Rightarrow> int \<Rightarrow> json" where
  "example_node i ts = JDict [(''id'', JStr i), (''taken_at_timestamp'', JInt ts)]"

definition example_post :: "string \<Rightarrow> string \<Rightarrow> post" where
  "example_post i t =
     [(''id'', JStr i), (''owner_id'', JNull), (''created_time'', JStr t),
      (''typename'', JNull), (''comment_count'', JNull), (''like_count'', JNull),
      (''video_view_count'', JNull), (''shortcode'', JNull), (''caption'', JNull)]"

text \<open>First the page of \<open>a\<close>, then the page of \<open>b\<close>, then the request fails.\<close>

definition example_upstream :: upstream where
  "example_upstream n c =
     (if n = 0
      then Inr (example_page (JStr ''c1'') [JDict [(''node'', example_node ''a'' 1615803630)]])
      else if n = 1
      then Inr (example_page (JStr ''c2'') [JDict [(''node'', example_node ''b'' 1615803730)]])
      else Inl (RequestError ''429 Too Many Requests''))"

text \<open>
  An environment in which every text can be printed and written and every path opened;
  the \<^verbatim>\<open>str()\<close> of a float, a list or a dictionary is not needed in the runs below.
\<close>

definition example_env :: environment where
  "example_env =
     \<lparr>repr = (\<lambda>v. []), stdout_encodes = (\<lambda>t. True), can_open = (\<lambda>p. True),
      file_encodes = (\<lambda>t. True)\<rparr>"



definition example_now :: datetime where
  "example_now = (2021, 6, 1, 12, 0, 0, 17)"

definition example_min_date :: datetime where
  "example_min_date = (2020, 1, 1, 0, 0, 0, 0)"

text \<open>The states of the loop after the first and after the second page.\<close>

definition example_state1 :: loop_state where
  "example_state1 =
     \<lparr>all_posts = [example_post ''a'' ''2021-03-15 10:20:30''],
      end_cursor = JStr ''c1'',
      earliest_datetime_so_far = (2021, 3, 15, 10, 20, 30, 0), fetches = 1, slept = 0\<rparr>"

definition example_state2 :: loop_state where
  "example_state2 =
     \<lparr>all_posts = [example_post ''a'' ''2021-03-15 10:20:30'',
                   example_post ''b'' ''2021-03-15 10:22:10''],
      end_cursor = JStr ''c2'',
      earliest_datetime_so_far = (2021, 3, 15, 10, 22, 10, 0), fetches = 2, slept = 20\<rparr>"

text \<open>After the page of \<open>a\<close>, every page is empty.\<close>

definition example_upstream_ends :: upstream where
  "example_upstream_ends n c =
     (if n = 0
      then Inr (example_page (JStr ''c1'') [JDict [(''node'', example_node ''a'' 1615803630)]])
      else Inr (example_page JNull []))"

text \<open>After the page of \<open>a\<close>, a page with one post that has no timestamp.\<close>

definition example_upstream_no_timestamp :: upstream where
  "example_upstream_no_timestamp n c =
     (if n = 0
      then Inr (example_page (JStr ''c1'') [JDict [(''node'', example_node ''a'' 1615803630)]])
      else Inr (example_page (JStr ''c2'') [JDict [(''node'', JDict [(''id'', JStr ''b'')])]]))"

text \<open>
  The answers to a request on which the loop cannot go on: an exception in the \<^verbatim>\<open>try\<close>
  block, an empty page, or a page whose minimum cannot be computed.
\<close>

definition page_stops :: "py_error + json \<times> post list \<Rightarrow> bool" where
  "page_stops r =
     (case r of
        Inl e \<Rightarrow> True
      | Inr (cursor, posts) \<Rightarrow>
          posts = [] \<or> (case earliest_of posts of Inl e \<Rightarrow> True | Inr d \<Rightarrow> False))"

text \<open>
  The dates of a list of posts, read off their \<^verbatim>\<open>created_time\<close> fields: those that are
  strings and that \<^verbatim>\<open>strptime\<close> can parse.
\<close>

definition parseable_dates :: "post list \<Rightarrow> datetime set" where
  "parseable_dates posts =
     set (concat (map (\<lambda>p. case map_of p ''created_time'' of
                              Some (JStr t) \<Rightarrow> (case strptime t of Inr d \<Rightarrow> [d] | Inl e \<Rightarrow> [])
                            | _ \<Rightarrow> []) posts))"

text \<open>Whether a result is an exception of the request itself.\<close>

definition raises_request :: "py_error + 'a \<Rightarrow> bool" where
  "raises_request r = (case r of Inl (RequestError msg) \<Rightarrow> True | _ \<Rightarrow> False)"

text \<open>
  A post with a caption that is not ASCII, an environment whose files take ASCII only,
  and an environment in which no path can be opened.
\<close>

definition example_node_caption :: json where
  "example_node_caption =
     JDict [(''id'', JStr ''a''), (''taken_at_timestamp'', JInt 1615803630),
            (''edge_media_to_caption'',
               JDict [(''edges'', JList [JDict [(''node'',
                 JDict [(''text'', JStr [CHR ''h'', CHR ''i'', CHR 0xC3, CHR 0xA9])])]])])]"

definition example_post_caption :: post where
  "example_post_caption =
     [(''id'', JStr ''a''), (''owner_id'', JNull), (''created_time'', JStr ''2021-03-15 10:20:30''),
      (''typename'', JNull), (''comment_count'', JNull), (''like_count'', JNull),
      (''video_view_count'', JNull), (''shortcode'', JNull),
      (''caption'', JStr [CHR ''h'', CHR ''i'', CHR 0xC3, CHR 0xA9])]"

definition example_upstream_caption :: upstream where
  "example_upstream_caption n c =
     (if n = 0
      then Inr (example_page (JStr ''c1'') [JDict [(''node'', example_node_caption)]])
      else Inl (RequestError ''429 Too Many Requests''))"

definition example_state_caption :: loop_state where
  "example_state_caption =
     \<lparr>all_posts = [example_post_caption], end_cursor = JStr ''c1'',
      earliest_datetime_so_far = (2021, 3, 15, 10, 20, 30, 0), fetches = 1, slept = 0\<rparr>"

definition example_env_ascii :: environment where
  "example_env_ascii =
     example_env\<lparr>file_encodes := (\<lambda>t. list_all (\<lambda>c. (of_char c :: nat) < 128) t)\<rparr>"


text \<open>
  The two pages in the other order: first the page of \<open>b\<close>, then the earlier page of \<open>a\<close>,
  with a minimum date between the two.
\<close>

definition example_upstream_rev :: upstream where
  "example_upstream_rev n c =
     (if n = 0
      then Inr (example_page (JStr ''c1'') [JDict [(''node'', example_node ''b'' 1615803730)]])
      else if n = 1
      then Inr (example_page (JStr ''c2'') [JDict [(''node'', example_node ''a'' 1615803630)]])
      else Inl (RequestError ''429 Too Many Requests''))"

definition example_stop_date :: datetime where
  "example_stop_date = (2021, 3, 15, 10, 21, 0, 0)"

definition example_rev1 :: loop_state where
  "example_rev1 =
     \<lparr>all_posts = [example_post ''b'' ''2021-03-15 10:22:10''],
      end_cursor = JStr ''c1'',
      earliest_datetime_so_far = (2021, 3, 15, 10, 22, 10, 0), fetches = 1, slept = 0\<rparr>"

definition example_rev2 :: loop_state where
  "example_rev2 =
     \<lparr>all_posts = [example_post ''b'' ''2021-03-15 10:22:10'',
                   example_post ''a'' ''2021-03-15 10:20:30''],
      end_cursor = JStr ''c2'',
      earliest_datetime_so_far = (2021, 3, 15, 10, 20, 30, 0), fetches = 2, slept = 20\<rparr>"

(*THEOREMS*)

section \<open>Properties of the Record Extractor\<close>

text \<open>
  Claim C3. The caption should be null when the list \<^verbatim>\<open>edge_media_to_caption.edges\<close> is
  empty, and no exception should leave the extraction of a node. The source takes
  element 0 of the list: the default \<^verbatim>\<open>[{}]\<close> covers a missing key only, and on a list
  that is present and empty the subscript raises IndexError, which ends the extraction
  of the node.
\<close>

theorem caption_empty_edges_raises:
  "get_post_from_node
     (JDict [(''id'', JStr ''1''),
             (''edge_media_to_caption'', JDict [(''edges'', JList [])])]) = Inl IndexError"
  by (simp add: get_post_from_node_def caption_of_def py_bind_def)

section \<open>Evaluating the concrete run\<close>

lemmas nav_defs =
  try_block_def page_cursor_def page_edges_def hashtag_media_def py_bind_def
  posts_of_edges_def example_page_def

lemmas parse_defs =
  strptime_def parse_fields_def parse_Y_def parse_m_def parse_d_def parse_H_def
  parse_M_def parse_S_def two_digits_def one_digit_def orelse_def expect_def spaces1_def
  digit_val_def is_space_def days_in_month_def DAYS_IN_MONTH_def is_leap_def

lemmas utc_defs =
  utcfromtimestamp_def datetime_from_timet_def ord2ymd_def Let_def DAYS_BEFORE_MONTH_def
  DAYS_IN_MONTH_def

lemmas fmt_defs = strftime_def pad2_def digits_of_nat.simps digit_char_def

lemma utc_a: "utcfromtimestamp 1615803630 = Inr (2021, 3, 15, 10, 20, 30, 0)"
  by (simp add: utc_defs)

lemma utc_b: "utcfromtimestamp 1615803730 = Inr (2021, 3, 15, 10, 22, 10, 0)"
  by (simp add: utc_defs)

lemma fmt_a: "strftime (2021, 3, 15, 10, 20, 30, 0) = ''2021-03-15 10:20:30''"
  by (simp add: fmt_defs)

lemma fmt_b: "strftime (2021, 3, 15, 10, 22, 10, 0) = ''2021-03-15 10:22:10''"
  by (simp add: fmt_defs)

lemma parse_a: "strptime ''2021-03-15 10:20:30'' = Inr (2021, 3, 15, 10, 20, 30, 0)"
  by (simp add: parse_defs)

lemma parse_b: "strptime ''2021-03-15 10:22:10'' = Inr (2021, 3, 15, 10, 22, 10, 0)"
  by (simp add: parse_defs)

lemma parse_empty: "strptime [] = Inl ValueError"
  by (simp add: parse_defs)

lemma node_a:
  "get_post_from_node (example_node ''a'' 1615803630) =
     Inr (example_post ''a'' ''2021-03-15 10:20:30'')"
  by (simp add: get_post_from_node_def caption_of_def py_bind_def example_node_def
      example_post_def utc_a fmt_a)

lemma node_b:
  "get_post_from_node (example_node ''b'' 1615803730) =
     Inr (example_post ''b'' ''2021-03-15 10:22:10'')"
  by (simp add: get_post_from_node_def caption_of_def py_bind_def example_node_def
      example_post_def utc_b fmt_b)


lemma try_a:
  "try_block (example_upstream 0 c) =
     Inr (JStr ''c1'', [example_post ''a'' ''2021-03-15 10:20:30''])"
  by (simp add: nav_defs example_upstream_def node_a)

lemma try_b:
  "try_block (example_upstream (Suc 0) c) =
     Inr (JStr ''c2'', [example_post ''b'' ''2021-03-15 10:22:10''])"
  by (simp add: nav_defs example_upstream_def node_b)

lemma try_c:
  "try_block (example_upstream (Suc (Suc 0)) c) = Inl (RequestError ''429 Too Many Requests'')"
  by (simp add: nav_defs example_upstream_def)

lemma early_a:
  "earliest_of [example_post ''a'' ''2021-03-15 10:20:30''] = Inr (2021, 3, 15, 10, 20, 30, 0)"
  by (simp add: earliest_of_def example_post_def parse_a py_bind_def)

lemma early_b:
  "earliest_of [example_post ''b'' ''2021-03-15 10:22:10''] = Inr (2021, 3, 15, 10, 22, 10, 0)"
  by (simp add: earliest_of_def example_post_def parse_b py_bind_def)

lemma early_ab:
  "earliest_of [example_post ''a'' ''2021-03-15 10:20:30'',
                example_post ''b'' ''2021-03-15 10:22:10''] = Inr (2021, 3, 15, 10, 20, 30, 0)"
  by (simp add: earliest_of_def example_post_def parse_a parse_b py_bind_def)

lemma guard0: "example_min_date < earliest_datetime_so_far (initial_state example_now)"
  by (simp add: example_min_date_def example_now_def initial_state_def)

lemma guard1: "example_min_date < earliest_datetime_so_far example_state1"
  by (simp add: example_min_date_def example_state1_def)

lemma guard2: "example_min_date < earliest_datetime_so_far example_state2"
  by (simp add: example_min_date_def example_state2_def)

lemma before0: "before_request env wait (initial_state now) = None"
  by (simp add: before_request_def initial_state_def)

lemma loop_body_printing:
  assumes "\<forall>t. stdout_encodes env t"
  shows "loop_body env upstream 20 s =
     (let s' = s\<lparr>fetches := fetches s + 1,
                 slept := (if truthy (end_cursor s) then slept s + 20 else slept s)\<rparr>
      in case try_block (upstream (fetches s) (request_of s)) of
           Inl e \<Rightarrow> Break s'
         | Inr (cursor, posts) \<Rightarrow>
             if length posts = 0 then Break s'
             else (case earliest_of posts of
                     Inl e \<Rightarrow> Raise e
                   | Inr d \<Rightarrow>
                       Continue (s'\<lparr>all_posts := all_posts s @ posts,
                                    end_cursor := cursor,
                                    earliest_datetime_so_far := d\<rparr>)))"
proof -
  have b: "before_request env 20 s = None"
    using assms by (simp add: before_request_def sleep_error_def print_cursor_def)
  have p: "\<And>e. print_exception env e = None"
    using assms by (simp add: print_exception_def split: py_error.splits)
  show ?thesis
    by (simp add: loop_body_def b p cong: sum.case_cong)
qed

lemma before_example: "before_request example_env 20 s = None"
  by (simp add: before_request_def sleep_error_def print_cursor_def example_env_def)

lemma print_exception_example: "print_exception example_env e = None"
  by (simp add: print_exception_def example_env_def split: py_error.splits)

lemma loop_body_example:
  "loop_body example_env upstream 20 s =
     (let s' = s\<lparr>fetches := fetches s + 1,
                 slept := (if truthy (end_cursor s) then slept s + 20 else slept s)\<rparr>
      in case try_block (upstream (fetches s) (request_of s)) of
           Inl e \<Rightarrow> Break s'
         | Inr (cursor, posts) \<Rightarrow>
             if length posts = 0 then Break s'
             else (case earliest_of posts of
                     Inl e \<Rightarrow> Raise e
                   | Inr d \<Rightarrow>
                       Continue (s'\<lparr>all_posts := all_posts s @ posts,
                                    end_cursor := cursor,
                                    earliest_datetime_so_far := d\<rparr>)))"
  by (simp add: loop_body_def before_example print_exception_example cong: sum.case_cong)

lemmas body_defs = loop_body_example request_of_def

lemma body0:
  "loop_body example_env example_upstream 20 (initial_state example_now) = Continue example_state1"
  by (simp add: body_defs initial_state_def try_a early_a example_state1_def)

lemma body1: "loop_body example_env example_upstream 20 example_state1 = Continue example_state2"
  by (simp add: body_defs example_state1_def try_b early_b example_state2_def)

lemma body2:
  "loop_body example_env example_upstream 20 example_state2 =
     Break (example_state2\<lparr>fetches := 3, slept := 40\<rparr>)"
  by (simp add: body_defs example_state2_def try_c numeral_2_eq_2)

section \<open>Properties of the Fetch Loop\<close>

lemma loop_stop:
  "\<not> min_datetime < earliest_datetime_so_far s \<Longrightarrow>
     get_posts_loop env upstream min_datetime wait s = Some (Inr s)"
  by (subst get_posts_loop.simps) simp

lemma loop_step:
  "min_datetime < earliest_datetime_so_far s \<Longrightarrow>
     get_posts_loop env upstream min_datetime wait s =
       (case loop_body env upstream wait s of
          Continue s' \<Rightarrow> get_posts_loop env upstream min_datetime wait s'
        | Break s' \<Rightarrow> Some (Inr s')
        | Raise e \<Rightarrow> Some (Inl e))"
  by (subst get_posts_loop.simps) simp

lemma run_example:
  "get_posts_run example_env example_upstream example_now example_min_date 20 =
     Some (Inr (example_state2\<lparr>fetches := 3, slept := 40\<rparr>))"
  by (simp add: get_posts_run_def loop_step [OF guard0] body0 loop_step [OF guard1] body1
      loop_step [OF guard2] body2)

text \<open>
  Claim C9. When the minimum date is after the clock reading taken before the loop, the
  guard of the \<^verbatim>\<open>while\<close> loop is false at once: the loop makes no request (so at most
  one) and the result is the empty list.
\<close>

theorem min_date_after_now_stops_at_once:
  "now < min_datetime \<Longrightarrow>
     get_posts_run env upstream now min_datetime wait = Some (Inr (initial_state now)) \<and>
     fetches (initial_state now) = 0 \<and>
     get_posts env upstream now min_datetime wait = Some (Inr [])"
  by (simp add: get_posts_def get_posts_run_def loop_stop initial_state_def)

theorem min_date_after_now_stops_at_once_witness:
  "example_now < (2022, 1, 1, 0, 0, 0, 0) \<and>
   get_posts_run example_env example_upstream example_now (2022, 1, 1, 0, 0, 0, 0) 20 =
     Some (Inr (initial_state example_now)) \<and>
   fetches (initial_state example_now) = 0 \<and>
   get_posts example_env example_upstream example_now (2022, 1, 1, 0, 0, 0, 0) 20 = Some (Inr [])"
proof -
  have h: "example_now < (2022, 1, 1, 0, 0, 0, 0)"
    by (simp add: example_now_def)
  show ?thesis
    using h min_date_after_now_stops_at_once [OF h, of example_env example_upstream 20] by simp
qed

lemma loop_body_continue:
  "loop_body env upstream wait s = Continue s' \<Longrightarrow>
     fetches s' = fetches s + 1 \<and> \<not> page_stops (try_block (upstream (fetches s) (request_of s)))"
  by (auto simp: loop_body_def Let_def page_stops_def split: if_splits sum.splits prod.splits
      option.splits)

lemma loop_terminates_aux:
  assumes "\<forall>c. page_stops (try_block (upstream k c))"
  shows "fetches s \<le> k \<Longrightarrow> \<exists>r. get_posts_loop env upstream min_datetime wait s = Some r"
proof (induction "k - fetches s" arbitrary: s)
  case 0
  then have k: "fetches s = k" by simp
  show ?case
  proof (cases "min_datetime < earliest_datetime_so_far s")
    case False
    then show ?thesis by (simp add: loop_stop)
  next
    case True
    show ?thesis
    proof (cases "loop_body env upstream wait s")
      case (Continue s')
      from loop_body_continue [OF this] assms k show ?thesis by simp
    next
      case (Break s')
      then show ?thesis by (simp add: loop_step [OF True])
    next
      case (Raise e)
      then show ?thesis by (simp add: loop_step [OF True])
    qed
  qed
next
  case (Suc d)
  show ?case
  proof (cases "min_datetime < earliest_datetime_so_far s")
    case False
    then show ?thesis by (simp add: loop_stop)
  next
    case True
    show ?thesis
    proof (cases "loop_body env upstream wait s")
      case (Continue s')
      from loop_body_continue [OF this] have f: "fetches s' = fetches s + 1" by simp
      with Suc.hyps(2) Suc.prems have "d = k - fetches s'" "fetches s' \<le> k" by simp_all
      from Suc.hyps(1) [OF this] show ?thesis by (simp add: loop_step [OF True] Continue)
    next
      case (Break s')
      then show ?thesis by (simp add: loop_step [OF True])
    next
      case (Raise e)
      then show ?thesis by (simp add: loop_step [OF True])
    qed
  qed
qed

lemma unparseable_page_stops:
  assumes "\<forall>p\<in>set posts. map_of p ''created_time'' = Some (JStr [])"
  shows "page_stops (Inr (cursor, posts))"
proof (cases posts)
  case Nil
  then show ?thesis by (simp add: page_stops_def)
next
  case (Cons p ps)
  with assms have "map_of p ''created_time'' = Some (JStr [])" by simp
  then have "earliest_of posts = Inl ValueError"
    by (simp add: earliest_of_def py_bind_def Cons parse_empty)
  then show ?thesis by (simp add: page_stops_def)
qed

text \<open>
  Claim C4. If from some request on every answer is a page that is empty or whose
  records all have the empty string as \<^verbatim>\<open>created_time\<close>, then \<^verbatim>\<open>get_posts\<close> returns,
  whatever the minimum date is. It returns a value: on an empty page the loop ends
  with the posts gathered, on a page of records without timestamp \<^verbatim>\<open>strptime\<close> raises
  and the value is that exception.
\<close>

theorem fetch_loop_terminates:
  assumes "\<exists>k. \<forall>j\<ge>k. \<forall>c. \<exists>cursor posts.
             try_block (upstream j c) = Inr (cursor, posts) \<and>
             (\<forall>p\<in>set posts. map_of p ''created_time'' = Some (JStr []))"
  shows "\<exists>r. get_posts env upstream now min_datetime wait = Some r"
proof -
  from assms obtain k where
    k: "\<forall>c. \<exists>cursor posts. try_block (upstream k c) = Inr (cursor, posts) \<and>
             (\<forall>p\<in>set posts. map_of p ''created_time'' = Some (JStr []))"
    by blast
  have "\<forall>c. page_stops (try_block (upstream k c))"
  proof
    fix c
    from k obtain cursor posts where "try_block (upstream k c) = Inr (cursor, posts)"
      "\<forall>p\<in>set posts. map_of p ''created_time'' = Some (JStr [])" by blast
    then show "page_stops (try_block (upstream k c))"
      by (simp add: unparseable_page_stops)
  qed
  with loop_terminates_aux [of upstream k "initial_state now" env min_datetime wait]
  obtain r where "get_posts_run env upstream now min_datetime wait = Some r"
    by (auto simp: get_posts_run_def initial_state_def)
  then show ?thesis
    by (cases r) (simp_all add: get_posts_def)
qed

lemma try_ends: "0 < j \<Longrightarrow> try_block (example_upstream_ends j c) = Inr (JNull, [])"
  by (simp add: nav_defs example_upstream_ends_def)

lemma try_ends0:
  "try_block (example_upstream_ends 0 c) =
     Inr (JStr ''c1'', [example_post ''a'' ''2021-03-15 10:20:30''])"
  by (simp add: nav_defs example_upstream_ends_def node_a)

lemma run_ends:
  "get_posts example_env example_upstream_ends example_now example_min_date 20 =
     Some (Inr [example_post ''a'' ''2021-03-15 10:20:30''])"
proof -
  have b0: "loop_body example_env example_upstream_ends 20 (initial_state example_now) =
      Continue example_state1"
    by (simp add: body_defs initial_state_def try_ends0 early_a example_state1_def)
  have b1: "loop_body example_env example_upstream_ends 20 example_state1 =
      Break (example_state1\<lparr>fetches := 2, slept := 20\<rparr>)"
    by (simp add: body_defs example_state1_def try_ends numeral_2_eq_2)
  have "get_posts_run example_env example_upstream_ends example_now example_min_date 20 =
      Some (Inr (example_state1\<lparr>fetches := 2, slept := 20\<rparr>))"
    by (simp add: get_posts_run_def loop_step [OF guard0] b0 loop_step [OF guard1] b1)
  then show ?thesis
    by (simp add: get_posts_def example_state1_def)
qed

theorem fetch_loop_terminates_witness:
  "(\<exists>k. \<forall>j\<ge>k. \<forall>c. \<exists>cursor posts.
       try_block (example_upstream_ends j c) = Inr (cursor, posts) \<and>
       (\<forall>p\<in>set posts. map_of p ''created_time'' = Some (JStr []))) \<and>
   (\<exists>r. get_posts example_env example_upstream_ends example_now example_min_date 20 = Some r) \<and>
   get_posts example_env example_upstream_ends example_now example_min_date 20 =
     Some (Inr [example_post ''a'' ''2021-03-15 10:20:30''])"
proof -
  have h: "\<exists>k. \<forall>j\<ge>k. \<forall>c. \<exists>cursor posts.
       try_block (example_upstream_ends j c) = Inr (cursor, posts) \<and>
       (\<forall>p\<in>set posts. map_of p ''created_time'' = Some (JStr []))"
    by (rule exI [of _ 1]) (simp add: try_ends)
  from fetch_loop_terminates [OF h, of example_env example_now example_min_date 20] h run_ends
  show ?thesis by simp
qed

lemma try_nots:
  "0 < j \<Longrightarrow> try_block (example_upstream_no_timestamp j c) =
     Inr (JStr ''c2'',
          [[(''id'', JStr ''b''), (''owner_id'', JNull), (''created_time'', JStr []),
            (''typename'', JNull), (''comment_count'', JNull), (''like_count'', JNull),
            (''video_view_count'', JNull), (''shortcode'', JNull), (''caption'', JNull)]])"
  by (simp add: nav_defs example_upstream_no_timestamp_def get_post_from_node_def caption_of_def)

lemma try_nots0:
  "try_block (example_upstream_no_timestamp 0 c) =
     Inr (JStr ''c1'', [example_post ''a'' ''2021-03-15 10:20:30''])"
  by (simp add: nav_defs example_upstream_no_timestamp_def node_a)

text \<open>
  Claim C2. A record without timestamp has the empty string as \<^verbatim>\<open>created_time\<close>. The
  filter of line 123 keeps every string, the empty one too, so \<^verbatim>\<open>strptime\<close> is called on
  it and raises ValueError, outside the \<^verbatim>\<open>try\<close> block: the exception leaves
  \<^verbatim>\<open>get_posts\<close> and \<^verbatim>\<open>main\<close>, and the posts of the first page are not exported.
\<close>

theorem missing_timestamp_escapes_loop:
  "get_posts example_env example_upstream_no_timestamp example_now example_min_date 20 =
     Some (Inl ValueError) \<and>
   main example_env example_upstream_no_timestamp example_now Map.empty example_min_date
     ''data.csv'' 20 = Some (Inl ValueError)"
proof -
  have b0: "loop_body example_env example_upstream_no_timestamp 20 (initial_state example_now) =
      Continue example_state1"
    by (simp add: body_defs initial_state_def try_nots0 early_a example_state1_def)
  have b1: "loop_body example_env example_upstream_no_timestamp 20 example_state1 =
      Raise ValueError"
    by (simp add: body_defs example_state1_def try_nots earliest_of_def py_bind_def parse_empty)
  have "get_posts example_env example_upstream_no_timestamp example_now example_min_date 20 =
      Some (Inl ValueError)"
    by (simp add: get_posts_def get_posts_run_def loop_step [OF guard0] b0 loop_step [OF guard1] b1)
  then show ?thesis by (simp add: main_def)
qed

section \<open>The states the loop reaches\<close>

lemma reached_run:
  "reached env upstream min_datetime wait now s \<Longrightarrow>
     get_posts_loop env upstream min_datetime wait (initial_state now) =
     get_posts_loop env upstream min_datetime wait s"
  by (induction rule: reached.induct) (simp_all add: loop_step)

lemma loop_body_ContinueD:
  assumes "loop_body env upstream wait s = Continue s'"
  shows "\<exists>cursor posts d.
           try_block (upstream (fetches s) (request_of s)) = Inr (cursor, posts) \<and>
           posts \<noteq> [] \<and> earliest_of posts = Inr d \<and>
           all_posts s' = all_posts s @ posts \<and> earliest_datetime_so_far s' = d"
  using assms
  by (auto simp: loop_body_def Let_def split: if_splits sum.splits prod.splits option.splits)

lemma parseable_dates_append:
  "parseable_dates (xs @ ys) = parseable_dates xs \<union> parseable_dates ys"
  by (simp add: parseable_dates_def)

lemma parseable_dates_Cons:
  "parseable_dates (p # ps) =
     (case map_of p ''created_time'' of
        Some (JStr t) \<Rightarrow> (case strptime t of Inr d \<Rightarrow> {d} | Inl e \<Rightarrow> {})
      | _ \<Rightarrow> {}) \<union> parseable_dates ps"
  by (simp add: parseable_dates_def split: option.splits json.splits sum.splits)

lemma finite_parseable_dates: "finite (parseable_dates posts)"
  unfolding parseable_dates_def by (rule finite_set)

lemma created_datetimes_dates:
  "created_datetimes posts = Inr ds \<Longrightarrow> set ds = parseable_dates posts"
proof (induction posts arbitrary: ds)
  case Nil
  then show ?case by (simp add: parseable_dates_def)
next
  case (Cons p ps)
  show ?case
  proof (cases "map_of p ''created_time''")
    case None
    with Cons.prems show ?thesis by simp
  next
    case (Some v)
    show ?thesis
    proof (cases v)
      case (JStr t)
      with Some Cons.prems obtain d ds' where
        "strptime t = Inr d" "created_datetimes ps = Inr ds'" "ds = d # ds'"
        by (auto split: sum.splits)
      with Cons.IH [of ds'] Some JStr show ?thesis
        by (simp add: parseable_dates_Cons)
    qed (use Some Cons in \<open>simp_all add: parseable_dates_Cons\<close>)
  qed
qed

lemma py_min_Min: "py_min ds = Inr d \<Longrightarrow> ds \<noteq> [] \<and> d = Min (set ds)"
proof (cases ds)
  case Nil
  assume "py_min ds = Inr d"
  with Nil show ?thesis by simp
next
  case (Cons x xs)
  assume "py_min ds = Inr d"
  with Cons have "d = fold min xs x" by simp
  with Cons Min.set_eq_fold [of x xs] show ?thesis by simp
qed

lemma earliest_of_Min:
  assumes "earliest_of posts = Inr d"
  shows "parseable_dates posts \<noteq> {} \<and> d = Min (parseable_dates posts)"
proof -
  from assms obtain ds where ds: "created_datetimes posts = Inr ds" and m: "py_min ds = Inr d"
    by (auto simp: earliest_of_def py_bind_def split: sum.splits)
  from py_min_Min [OF m] created_datetimes_dates [OF ds] show ?thesis by auto
qed

text \<open>
  On a state the loop reaches, every date gathered so far is later than the minimum
  date or not earlier than the variable.
\<close>

lemma reached_dates:
  "reached env upstream min_datetime wait now s \<Longrightarrow>
     \<forall>d\<in>parseable_dates (all_posts s). earliest_datetime_so_far s \<le> d \<or> min_datetime < d"
proof (induction rule: reached.induct)
  case start
  then show ?case by (simp add: initial_state_def parseable_dates_def)
next
  case (pass s s')
  from loop_body_ContinueD [OF pass.hyps(3)] obtain cursor posts d where
    e: "earliest_of posts = Inr d" and a: "all_posts s' = all_posts s @ posts"
    and m: "earliest_datetime_so_far s' = d" by blast
  from earliest_of_Min [OF e] have d: "d = Min (parseable_dates posts)" by simp
  show ?case
  proof
    fix x assume "x \<in> parseable_dates (all_posts s')"
    with a have "x \<in> parseable_dates (all_posts s) \<or> x \<in> parseable_dates posts"
      by (simp add: parseable_dates_append)
    then show "earliest_datetime_so_far s' \<le> x \<or> min_datetime < x"
    proof
      assume "x \<in> parseable_dates (all_posts s)"
      with pass.IH have "earliest_datetime_so_far s \<le> x \<or> min_datetime < x" by blast
      with pass.hyps(2) show ?thesis by auto
    next
      assume "x \<in> parseable_dates posts"
      with d m show ?thesis by (simp add: finite_parseable_dates)
    qed
  qed
qed

lemma get_post_created_time:
  "get_post_from_node node = Inr p \<Longrightarrow> \<exists>t. map_of p ''created_time'' = Some (JStr t)"
  by (auto simp: get_post_from_node_def py_bind_def split: sum.splits)

lemma py_map_all:
  "py_map f xs = Inr ys \<Longrightarrow> \<forall>y\<in>set ys. \<exists>x\<in>set xs. f x = Inr y"
  by (induction xs arbitrary: ys) (auto split: sum.splits)

lemma try_block_created_time:
  assumes "try_block r = Inr (cursor, posts)"
  shows "\<forall>p\<in>set posts. \<exists>t. map_of p ''created_time'' = Some (JStr t)"
proof -
  from assms obtain edges es where
    "py_map (\<lambda>edge. py_bind (py_get edge ''node'' JNull) get_post_from_node) es = Inr posts"
    by (auto simp: try_block_def posts_of_edges_def py_bind_def split: sum.splits)
  from py_map_all [OF this] have
    all: "\<forall>p\<in>set posts. \<exists>edge\<in>set es.
            py_bind (py_get edge ''node'' JNull) get_post_from_node = Inr p" .
  show ?thesis
  proof
    fix p assume "p \<in> set posts"
    with all obtain edge where
      "py_bind (py_get edge ''node'' JNull) get_post_from_node = Inr p" by blast
    then obtain node where "get_post_from_node node = Inr p"
      by (cases "py_get edge ''node'' JNull") (simp_all add: py_bind_def)
    then show "\<exists>t. map_of p ''created_time'' = Some (JStr t)"
      by (rule get_post_created_time)
  qed
qed

lemma created_datetimes_parse:
  "created_datetimes posts = Inr ds \<Longrightarrow>
     \<forall>p\<in>set posts. \<forall>t. map_of p ''created_time'' = Some (JStr t) \<longrightarrow> (\<exists>d. strptime t = Inr d)"
  by (induction posts arbitrary: ds) (auto split: option.splits json.splits sum.splits)

text \<open>
  Claim C1. The claim takes the minimum over all the pages fetched so far. In the run
  below the second page is later than the first: after it the variable holds the
  minimum of the second page, which is not the minimum of the dates of all the posts
  gathered.
\<close>

theorem earliest_is_not_minimum_of_all_pages:
  "loop_body example_env example_upstream 20 (initial_state example_now) = Continue example_state1 \<and>
   loop_body example_env example_upstream 20 example_state1 = Continue example_state2 \<and>
   earliest_datetime_so_far example_state2 = (2021, 3, 15, 10, 22, 10, 0) \<and>
   Min (parseable_dates (all_posts example_state2)) = (2021, 3, 15, 10, 20, 30, 0)"
  by (simp add: body0 body1)
    (simp add: example_state2_def parseable_dates_def example_post_def parse_a parse_b)

text \<open>
  Claim C1, amended. The loop has reached a state and makes one more pass that appends
  a batch. Then every post of the batch has a \<^verbatim>\<open>created_time\<close> that parses, the variable
  is the minimum of the dates of that batch alone (line 122 iterates over \<^verbatim>\<open>posts\<close>), the
  comparison of the minimum date with the variable has the same outcome as its
  comparison with the minimum over all the posts gathered, and the loop stops when the
  minimum date is not earlier than the variable.
\<close>

theorem earliest_is_minimum_of_latest_page:
  assumes "reached env upstream min_datetime wait now s"
    and "min_datetime < earliest_datetime_so_far s"
    and "loop_body env upstream wait s = Continue s'"
  shows "\<exists>cursor posts.
           try_block (upstream (fetches s) (request_of s)) = Inr (cursor, posts) \<and>
           posts \<noteq> [] \<and> all_posts s' = all_posts s @ posts \<and>
           (\<forall>p\<in>set posts. \<exists>t d. map_of p ''created_time'' = Some (JStr t) \<and> strptime t = Inr d) \<and>
           earliest_datetime_so_far s' = Min (parseable_dates posts) \<and>
           (min_datetime < earliest_datetime_so_far s') =
             (min_datetime < Min (parseable_dates (all_posts s'))) \<and>
           (\<not> min_datetime < earliest_datetime_so_far s' \<longrightarrow>
              get_posts_loop env upstream min_datetime wait s' = Some (Inr s'))"
proof -
  from loop_body_ContinueD [OF assms(3)] obtain cursor posts d where
    t: "try_block (upstream (fetches s) (request_of s)) = Inr (cursor, posts)"
    and ne: "posts \<noteq> []" and e: "earliest_of posts = Inr d"
    and a: "all_posts s' = all_posts s @ posts" and m: "earliest_datetime_so_far s' = d"
    by blast
  from earliest_of_Min [OF e] have
    pne: "parseable_dates posts \<noteq> {}" and d: "d = Min (parseable_dates posts)" by simp_all
  from e obtain ds where ds: "created_datetimes posts = Inr ds"
    by (auto simp: earliest_of_def py_bind_def split: sum.splits)
  have parse: "\<forall>p\<in>set posts. \<exists>t d. map_of p ''created_time'' = Some (JStr t) \<and> strptime t = Inr d"
    using try_block_created_time [OF t] created_datetimes_parse [OF ds] by blast
  let ?G = "parseable_dates (all_posts s')"
  have fin: "finite ?G" by (rule finite_parseable_dates)
  have sub: "parseable_dates posts \<subseteq> ?G" by (simp add: a parseable_dates_append)
  with pne have gne: "?G \<noteq> {}" by auto
  have din: "d \<in> ?G"
    using sub d pne Min_in [OF finite_parseable_dates [of posts]] by auto
  have inv: "\<forall>x\<in>parseable_dates (all_posts s). earliest_datetime_so_far s \<le> x \<or> min_datetime < x"
    by (rule reached_dates [OF assms(1)])
  have "(min_datetime < d) = (min_datetime < Min ?G)"
  proof
    assume lt: "min_datetime < d"
    have "\<forall>x\<in>?G. min_datetime < x"
    proof
      fix x assume "x \<in> ?G"
      then have "x \<in> parseable_dates (all_posts s) \<or> x \<in> parseable_dates posts"
        by (simp add: a parseable_dates_append)
      then show "min_datetime < x"
      proof
        assume "x \<in> parseable_dates (all_posts s)"
        with inv assms(2) show ?thesis by auto
      next
        assume "x \<in> parseable_dates posts"
        then have "d \<le> x" using d by (simp add: finite_parseable_dates)
        with lt show ?thesis by simp
      qed
    qed
    with Min_in [OF fin gne] show "min_datetime < Min ?G" by blast
  next
    assume "min_datetime < Min ?G"
    moreover have "Min ?G \<le> d" using din fin by simp
    ultimately show "min_datetime < d" by simp
  qed
  with t ne a parse d m show ?thesis by (simp add: loop_stop)
qed

lemma try_rev0:
  "try_block (example_upstream_rev 0 c) =
     Inr (JStr ''c1'', [example_post ''b'' ''2021-03-15 10:22:10''])"
  by (simp add: nav_defs example_upstream_rev_def node_b)

lemma try_rev1:
  "try_block (example_upstream_rev (Suc 0) c) =
     Inr (JStr ''c2'', [example_post ''a'' ''2021-03-15 10:20:30''])"
  by (simp add: nav_defs example_upstream_rev_def node_a)

lemma body_rev0:
  "loop_body example_env example_upstream_rev 20 (initial_state example_now) = Continue example_rev1"
  by (simp add: body_defs initial_state_def try_rev0 early_b example_rev1_def)

lemma body_rev1:
  "loop_body example_env example_upstream_rev 20 example_rev1 = Continue example_rev2"
  by (simp add: body_defs example_rev1_def try_rev1 early_a example_rev2_def)

lemma reached_rev1:
  "reached example_env example_upstream_rev example_stop_date 20 example_now example_rev1"
proof (rule reached.pass [OF reached.start _ body_rev0])
  show "example_stop_date < earliest_datetime_so_far (initial_state example_now)"
    by (simp add: example_stop_date_def initial_state_def example_now_def)
qed

theorem earliest_is_minimum_of_latest_page_witness:
  "reached example_env example_upstream_rev example_stop_date 20 example_now example_rev1 \<and>
   example_stop_date < earliest_datetime_so_far example_rev1 \<and>
   loop_body example_env example_upstream_rev 20 example_rev1 = Continue example_rev2 \<and>
   earliest_datetime_so_far example_rev2 = (2021, 3, 15, 10, 20, 30, 0) \<and>
   (\<exists>cursor posts.
      try_block (example_upstream_rev (fetches example_rev1) (request_of example_rev1)) =
        Inr (cursor, posts) \<and>
      posts \<noteq> [] \<and> all_posts example_rev2 = all_posts example_rev1 @ posts \<and>
      (\<forall>p\<in>set posts. \<exists>t d. map_of p ''created_time'' = Some (JStr t) \<and> strptime t = Inr d) \<and>
      earliest_datetime_so_far example_rev2 = Min (parseable_dates posts) \<and>
      (example_stop_date < earliest_datetime_so_far example_rev2) =
        (example_stop_date < Min (parseable_dates (all_posts example_rev2))) \<and>
      get_posts_loop example_env example_upstream_rev example_stop_date 20 example_rev2 =
        Some (Inr example_rev2))"
proof -
  have g: "example_stop_date < earliest_datetime_so_far example_rev1"
    by (simp add: example_stop_date_def example_rev1_def)
  have n: "\<not> example_stop_date < earliest_datetime_so_far example_rev2"
    by (simp add: example_stop_date_def example_rev2_def)
  have e: "earliest_datetime_so_far example_rev2 = (2021, 3, 15, 10, 20, 30, 0)"
    by (simp add: example_rev2_def)
  from earliest_is_minimum_of_latest_page [OF reached_rev1 g body_rev1]
  obtain cursor posts where
    f: "try_block (example_upstream_rev (fetches example_rev1) (request_of example_rev1)) =
          Inr (cursor, posts)"
       "posts \<noteq> []" "all_posts example_rev2 = all_posts example_rev1 @ posts"
       "\<forall>p\<in>set posts. \<exists>t d. map_of p ''created_time'' = Some (JStr t) \<and> strptime t = Inr d"
       "earliest_datetime_so_far example_rev2 = Min (parseable_dates posts)"
       "(example_stop_date < earliest_datetime_so_far example_rev2) =
          (example_stop_date < Min (parseable_dates (all_posts example_rev2)))"
    and imp: "\<not> example_stop_date < earliest_datetime_so_far example_rev2 \<longrightarrow>
       get_posts_loop example_env example_upstream_rev example_stop_date 20 example_rev2 =
         Some (Inr example_rev2)"
    by blast
  from imp n have
    "get_posts_loop example_env example_upstream_rev example_stop_date 20 example_rev2 =
       Some (Inr example_rev2)" by simp
  with f reached_rev1 g body_rev1 e show ?thesis by blast
qed

section \<open>Failures caught at the page boundary\<close>

lemma raises_request_bind:
  "\<not> raises_request x \<Longrightarrow> (\<And>v. \<not> raises_request (f v)) \<Longrightarrow> \<not> raises_request (py_bind x f)"
  by (cases x) (simp_all add: py_bind_def raises_request_def)



lemma raises_request_getitem: "\<not> raises_request (py_getitem v k)"
  by (cases v) (simp_all add: raises_request_def split: option.splits)










lemma raises_request_media: "\<not> raises_request (hashtag_media data)"
  unfolding hashtag_media_def
  by (intro raises_request_bind raises_request_getitem)

lemma raises_request_cursor: "\<not> raises_request (page_cursor data)"
  unfolding page_cursor_def
  by (intro raises_request_bind raises_request_getitem raises_request_media)

lemma raises_request_page_edges: "\<not> raises_request (page_edges data)"
  unfolding page_edges_def
  by (intro raises_request_bind raises_request_getitem raises_request_media)

lemma print_exception_quiet: "\<not> raises_request (Inl e :: py_error + 'a) \<Longrightarrow> print_exception env e = None"
  by (simp add: raises_request_def print_exception_def split: py_error.splits)

lemma caught_run:
  assumes "reached env upstream min_datetime wait now s"
    and "min_datetime < earliest_datetime_so_far s"
    and "before_request env wait s = None"
    and "try_block (upstream (fetches s) (request_of s)) = Inl e"
    and "print_exception env e = None"
  shows "\<exists>s'. get_posts_run env upstream now min_datetime wait = Some (Inr s') \<and>
           all_posts s' = all_posts s \<and> fetches s' = fetches s + 1"
proof -
  let ?s' = "s\<lparr>fetches := fetches s + 1,
                slept := (if truthy (end_cursor s) then slept s + wait else slept s)\<rparr>"
  have "loop_body env upstream wait s = Break ?s'"
    using assms(3-5) by (simp add: loop_body_def Let_def)
  then have "get_posts_loop env upstream min_datetime wait s = Some (Inr ?s')"
    by (simp add: loop_step [OF assms(2)])
  with reached_run [OF assms(1)] have
    "get_posts_run env upstream now min_datetime wait = Some (Inr ?s')"
    by (simp add: get_posts_run_def)
  then show ?thesis by simp
qed

lemma main_after_run:
  "get_posts_run env upstream now min_datetime wait = Some (Inr s') \<Longrightarrow>
     get_posts env upstream now min_datetime wait = Some (Inr (all_posts s')) \<and>
     main env upstream now fs min_datetime output wait =
       Some (export_posts env fs (all_posts s') output)"
  by (simp add: main_def get_posts_def)

lemma export_posts_ok:
  "can_open env output \<Longrightarrow> file_encodes env (csv_content env posts) \<Longrightarrow>
     export_posts env fs posts output =
       Inr (if posts = [] then fs else fs(output \<mapsto> csv_content env posts))"
  by (simp add: export_posts_def)

lemma stdout_ascii: "\<forall>t. stdout_encodes example_env_ascii t"
  by (simp add: example_env_ascii_def example_env_def)


lemma reached_example1:
  "reached example_env example_upstream example_min_date 20 example_now example_state1"
  by (rule reached.pass [OF reached.start guard0 body0])

lemma reached_example2:
  "reached example_env example_upstream example_min_date 20 example_now example_state2"
  by (rule reached.pass [OF reached_example1 guard1 body1])

lemma csv_example:
  "csv_content example_env [example_post ''a'' ''2021-03-15 10:20:30'',
                            example_post ''b'' ''2021-03-15 10:22:10''] =
     ''id|owner_id|created_time|typename|comment_count|like_count|video_view_count|shortcode|caption''
     @ [CHR 0x0D, CHR 0x0A]
     @ ''a||2021-03-15 10:20:30||||||'' @ [CHR 0x0D, CHR 0x0A]
     @ ''b||2021-03-15 10:22:10||||||'' @ [CHR 0x0D, CHR 0x0A]"
  by (simp add: csv_content_def csv_rows_def writerow_def quote_field_def special_char_def
      field_text_def example_post_def)


text \<open>
  Claim C5. The claim ends with an export that raises no exception. The export opens
  the file and writes the text of the records: in the run below the request for the
  second page fails, the post of the first page is returned, and its caption cannot be
  encoded by the file, so the export raises UnicodeEncodeError.
\<close>

theorem request_failure_export_raises:
  "get_posts example_env_ascii example_upstream_caption example_now example_min_date 20 =
     Some (Inr [example_post_caption]) \<and>
   main example_env_ascii example_upstream_caption example_now Map.empty example_min_date
     ''data.csv'' 20 = Some (Inl UnicodeEncodeError)"
proof -
  have n: "get_post_from_node example_node_caption = Inr example_post_caption"
    by (simp add: get_post_from_node_def caption_of_def py_bind_def example_node_caption_def
        example_post_caption_def utc_a fmt_a)
  have t0: "\<And>c. try_block (example_upstream_caption 0 c) = Inr (JStr ''c1'', [example_post_caption])"
    by (simp add: nav_defs example_upstream_caption_def n)
  have t1: "\<And>c. try_block (example_upstream_caption (Suc 0) c) =
      Inl (RequestError ''429 Too Many Requests'')"
    by (simp add: nav_defs example_upstream_caption_def)
  have e: "earliest_of [example_post_caption] = Inr (2021, 3, 15, 10, 20, 30, 0)"
    by (simp add: earliest_of_def example_post_caption_def parse_a py_bind_def)
  let ?s1 = example_state_caption
  have b0: "loop_body example_env_ascii example_upstream_caption 20 (initial_state example_now) =
      Continue ?s1"
    by (simp add: loop_body_printing [OF stdout_ascii] request_of_def initial_state_def t0 e
        example_state_caption_def)
  have b1: "loop_body example_env_ascii example_upstream_caption 20 ?s1 =
      Break (?s1\<lparr>fetches := 2, slept := 20\<rparr>)"
    by (simp add: loop_body_printing [OF stdout_ascii] request_of_def t1 numeral_2_eq_2
        example_state_caption_def)
  have g1: "example_min_date < earliest_datetime_so_far ?s1"
    by (simp add: example_min_date_def example_state_caption_def)
  have "get_posts_run example_env_ascii example_upstream_caption example_now example_min_date 20 =
      Some (Inr (?s1\<lparr>fetches := 2, slept := 20\<rparr>))"
    by (simp add: get_posts_run_def loop_step [OF guard0] b0 loop_step [OF g1] b1)
  then have run:
    "get_posts_run example_env_ascii example_upstream_caption example_now example_min_date 20 =
      Some (Inr \<lparr>all_posts = [example_post_caption], end_cursor = JStr ''c1'',
        earliest_datetime_so_far = (2021, 3, 15, 10, 20, 30, 0), fetches = 2, slept = 20\<rparr>)"
    by (simp add: example_state_caption_def)
  have x: "export_posts example_env_ascii Map.empty [example_post_caption] ''data.csv'' =
      Inl UnicodeEncodeError"
    by (simp add: export_posts_def example_env_ascii_def example_env_def csv_content_def
        csv_rows_def writerow_def quote_field_def special_char_def field_text_def
        example_post_caption_def)
  from main_after_run [OF run, of Map.empty "''data.csv''"] x show ?thesis by simp
qed

text \<open>
  Claim C5, amended. The loop has reached a state with the guard true, and the sleep
  and the printing before the request do not raise. If the request fails (and the
  message of its exception can be printed), or the navigation to the cursor or to the
  edges of the answer fails, then \<^verbatim>\<open>get_posts\<close> returns after that one request, with all
  the posts gathered before; and when the output path can be opened and the file can
  encode their text, \<^verbatim>\<open>main\<close> ends with the file holding the rows of these posts.
\<close>

theorem request_failure_keeps_earlier_pages:
  assumes "reached env upstream min_datetime wait now s"
    and "min_datetime < earliest_datetime_so_far s"
    and "before_request env wait s = None"
    and "(\<exists>e. upstream (fetches s) (request_of s) = Inl e \<and> print_exception env e = None) \<or>
         (\<exists>data e. upstream (fetches s) (request_of s) = Inr data \<and>
            (page_cursor data = Inl e \<or> page_edges data = Inl e))"
    and "can_open env output"
    and "file_encodes env (csv_content env (all_posts s))"
  shows "(\<exists>s'. get_posts_run env upstream now min_datetime wait = Some (Inr s') \<and>
            all_posts s' = all_posts s \<and> fetches s' = fetches s + 1) \<and>
         get_posts env upstream now min_datetime wait = Some (Inr (all_posts s)) \<and>
         main env upstream now fs min_datetime output wait =
           Some (Inr (if all_posts s = [] then fs
                      else fs(output \<mapsto> csv_content env (all_posts s))))"
proof -
  let ?r = "upstream (fetches s) (request_of s)"
  have "\<exists>e. try_block ?r = Inl e \<and> print_exception env e = None"
  proof -
    from assms(4) consider
      (request) e where "?r = Inl e" "print_exception env e = None"
      | (cursor) data e where "?r = Inr data" "page_cursor data = Inl e"
      | (edges) data e where "?r = Inr data" "page_edges data = Inl e"
      by blast
    then show ?thesis
    proof cases
      case request
      then show ?thesis by (simp add: try_block_def py_bind_def)
    next
      case cursor
      from raises_request_cursor [of data] cursor(2) have "print_exception env e = None"
        by (simp add: print_exception_quiet)
      with cursor show ?thesis by (simp add: try_block_def py_bind_def)
    next
      case edges
      show ?thesis
      proof (cases "page_cursor data")
        case (Inl e')
        from raises_request_cursor [of data] Inl have "print_exception env e' = None"
          by (simp add: print_exception_quiet)
        with edges Inl show ?thesis by (simp add: try_block_def py_bind_def)
      next
        case (Inr c)
        from raises_request_page_edges [of data] edges(2) have "print_exception env e = None"
          by (simp add: print_exception_quiet)
        with edges Inr show ?thesis by (simp add: try_block_def py_bind_def)
      qed
    qed
  qed
  then obtain e where "try_block ?r = Inl e" "print_exception env e = None" by blast
  from caught_run [OF assms(1-3) this] obtain s' where
    run: "get_posts_run env upstream now min_datetime wait = Some (Inr s')"
    and p: "all_posts s' = all_posts s" and f: "fetches s' = fetches s + 1" by blast
  from main_after_run [OF run, of fs "output"] p export_posts_ok [OF assms(5,6), of fs]
  have "get_posts env upstream now min_datetime wait = Some (Inr (all_posts s))"
    "main env upstream now fs min_datetime output wait =
       Some (Inr (if all_posts s = [] then fs else fs(output \<mapsto> csv_content env (all_posts s))))"
    by simp_all
  with run p f show ?thesis by blast
qed

theorem request_failure_keeps_earlier_pages_witness:
  "reached example_env example_upstream example_min_date 20 example_now example_state2 \<and>
   example_min_date < earliest_datetime_so_far example_state2 \<and>
   before_request example_env 20 example_state2 = None \<and>
   example_upstream (fetches example_state2) (request_of example_state2) =
     Inl (RequestError ''429 Too Many Requests'') \<and>
   print_exception example_env (RequestError ''429 Too Many Requests'') = None \<and>
   can_open example_env ''data.csv'' \<and>
   file_encodes example_env (csv_content example_env (all_posts example_state2)) \<and>
   (\<exists>s'. get_posts_run example_env example_upstream example_now example_min_date 20 =
           Some (Inr s') \<and>
         all_posts s' = all_posts example_state2 \<and> fetches s' = 3) \<and>
   get_posts example_env example_upstream example_now example_min_date 20 =
     Some (Inr [example_post ''a'' ''2021-03-15 10:20:30'',
                example_post ''b'' ''2021-03-15 10:22:10'']) \<and>
   main example_env example_upstream example_now Map.empty example_min_date ''data.csv'' 20 =
     Some (Inr [''data.csv'' \<mapsto>
       ''id|owner_id|created_time|typename|comment_count|like_count|video_view_count|shortcode|caption''
       @ [CHR 0x0D, CHR 0x0A]
       @ ''a||2021-03-15 10:20:30||||||'' @ [CHR 0x0D, CHR 0x0A]
       @ ''b||2021-03-15 10:22:10||||||'' @ [CHR 0x0D, CHR 0x0A]])"
proof -
  have u: "example_upstream (fetches example_state2) (request_of example_state2) =
      Inl (RequestError ''429 Too Many Requests'')"
    by (simp add: example_upstream_def example_state2_def)
  have h4:
    "(\<exists>e. example_upstream (fetches example_state2) (request_of example_state2) = Inl e \<and>
          print_exception example_env e = None) \<or>
     (\<exists>data e. example_upstream (fetches example_state2) (request_of example_state2) = Inr data \<and>
        (page_cursor data = Inl e \<or> page_edges data = Inl e))"
    using u by (simp add: print_exception_example)
  have h5: "can_open example_env ''data.csv''" by (simp add: example_env_def)
  have h6: "file_encodes example_env (csv_content example_env (all_posts example_state2))"
    by (simp add: example_env_def)
  have a: "all_posts example_state2 =
      [example_post ''a'' ''2021-03-15 10:20:30'', example_post ''b'' ''2021-03-15 10:22:10'']"
    by (simp add: example_state2_def)
  have f: "fetches example_state2 + 1 = 3"
    by (simp add: example_state2_def)
  from request_failure_keeps_earlier_pages
    [OF reached_example2 guard2 before_example h4 h5 h6, of Map.empty]
  obtain s' where
    r: "get_posts_run example_env example_upstream example_now example_min_date 20 =
          Some (Inr s')"
       "all_posts s' = all_posts example_state2" "fetches s' = fetches example_state2 + 1"
    and g: "get_posts example_env example_upstream example_now example_min_date 20 =
          Some (Inr (all_posts example_state2))"
    and m: "main example_env example_upstream example_now Map.empty example_min_date
          ''data.csv'' 20 =
          Some (Inr (if all_posts example_state2 = [] then Map.empty
                     else [''data.csv'' \<mapsto> csv_content example_env (all_posts example_state2)]))"
    by blast
  from r f have r': "\<exists>s'. get_posts_run example_env example_upstream example_now
      example_min_date 20 = Some (Inr s') \<and>
      all_posts s' = all_posts example_state2 \<and> fetches s' = 3" by simp
  from g a have g': "get_posts example_env example_upstream example_now example_min_date 20 =
      Some (Inr [example_post ''a'' ''2021-03-15 10:20:30'',
                 example_post ''b'' ''2021-03-15 10:22:10''])" by simp
  from m have m': "main example_env example_upstream example_now Map.empty example_min_date
      ''data.csv'' 20 =
      Some (Inr [''data.csv'' \<mapsto>
       ''id|owner_id|created_time|typename|comment_count|like_count|video_view_count|shortcode|caption''
       @ [CHR 0x0D, CHR 0x0A]
       @ ''a||2021-03-15 10:20:30||||||'' @ [CHR 0x0D, CHR 0x0A]
       @ ''b||2021-03-15 10:22:10||||||'' @ [CHR 0x0D, CHR 0x0A]])"
    unfolding a csv_example by simp
  from reached_example2 guard2 before_example [of example_state2] u
    print_exception_example [of "RequestError ''429 Too Many Requests''"] h5 h6 r' g' m'
  show ?thesis by (intro conjI)
qed













end
